theory Spec2Isabelle
  imports Complex_Main "HOL-Library.AList"
begin

section \<open>Python values and dictionaries\<close>

text \<open>
  The stage results of the orchestrator are free-form Python dictionaries with string
  keys. A dictionary is an association list in insertion order with distinct keys;
  \<open>d.get(k)\<close> is \<open>map_of d k\<close> and \<open>d[k] = v\<close> is \<open>AList.update k v d\<close>, which
  overwrites in place or appends, as a Python dictionary does. Numbers are integers:
  no decision of the program depends on a floating-point value held in a dictionary.
\<close>

datatype pyval =
    PNone
  | PBool bool
  | PInt int
  | PStr string
  | PList "pyval list"
  | PDict "(string \<times> pyval) list"

type_synonym pydict = "(string \<times> pyval) list"

definition dict_get :: "pydict \<Rightarrow> string \<Rightarrow> pyval" where
  \<comment> \<open>\<open>d.get(k)\<close>: \<open>None\<close> for a missing key\<close>
  "dict_get d k = (case map_of d k of None \<Rightarrow> PNone | Some v \<Rightarrow> v)"

definition dict_get_default :: "pydict \<Rightarrow> string \<Rightarrow> pyval \<Rightarrow> pyval" where
  \<comment> \<open>\<open>d.get(k, default)\<close>\<close>
  "dict_get_default d k dflt = (case map_of d k of None \<Rightarrow> dflt | Some v \<Rightarrow> v)"

definition dict_set :: "pydict \<Rightarrow> string \<Rightarrow> pyval \<Rightarrow> pydict" where
  \<comment> \<open>\<open>d[k] = v\<close>\<close>
  "dict_set d k v = AList.update k v d"

definition has_key :: "pydict \<Rightarrow> string \<Rightarrow> bool" where
  \<comment> \<open>\<open>k in d\<close>\<close>
  "has_key d k = (map_of d k \<noteq> None)"

text \<open>
  Exceptions are values. Only subclasses of \<open>Exception\<close> are represented (the handlers
  of the program are all \<open>except Exception\<close> or narrower); \<open>str(e)\<close> is \<open>exn_text\<close>.
\<close>

datatype exn_kind =
  ClientError | JSONDecodeError | TypeError | AttributeError | KeyError | OtherException

datatype exn = Exn (exn_kind: exn_kind) (exn_text: string)

section \<open>History analysis (agent\_brain.py, analyze\_history)\<close>

text \<open>
  A history entry is the dictionary written by the learn stage: seven keys, each
  possibly \<open>None\<close>. \<open>analyze_history\<close> also reads an optional key \<open>failure_type\<close>,
  which the orchestrator never writes and the tests give as a string label;
  \<open>he_failure_type = None\<close> is the absent key.
\<close>

record history_entry =
  he_iteration_id :: pyval
  he_timestamp :: pyval
  he_target :: pyval
  he_chaos_type :: pyval
  he_outcome :: pyval
  he_test_passed :: pyval
  he_findings_count :: pyval
  he_failure_type :: "string option"

record failure_stat =
  fs_type :: string
  fs_count :: nat

text \<open>
  The analysis dictionary. The keys \<open>successful_tests\<close>, \<open>failed_tests\<close> and
  \<open>most_recent\<close> exist only in the result for a non-empty history and
  \<open>recommendations\<close> only in the result for the empty one; \<open>None\<close> is the absent key.
  Python's float quotient \<open>successful / total\<close> is the exact rational quotient here.
\<close>

record analysis =
  total_tests :: nat
  successful_tests :: "nat option"
  failed_tests :: "nat option"
  success_rate :: rat
  common_failures :: "failure_stat list"
  recommendations :: "string list option"
  most_recent :: "history_entry option"

definition is_success :: "history_entry \<Rightarrow> bool" where
  \<comment> \<open>\<open>r.get('outcome') == 'success'\<close>\<close>
  "is_success r = (he_outcome r = PStr ''success'')"

definition is_failure :: "history_entry \<Rightarrow> bool" where
  \<comment> \<open>\<open>r.get('outcome') == 'failure'\<close>\<close>
  "is_failure r = (he_outcome r = PStr ''failure'')"

definition failure_type_of :: "history_entry \<Rightarrow> string" where
  \<comment> \<open>\<open>result.get('failure_type', 'unknown')\<close>\<close>
  "failure_type_of r = (case he_failure_type r of None \<Rightarrow> ''unknown'' | Some t \<Rightarrow> t)"

definition bump :: "(string \<times> nat) list \<Rightarrow> string \<Rightarrow> (string \<times> nat) list" where
  \<comment> \<open>\<open>failure_types[t] = failure_types.get(t, 0) + 1\<close>\<close>
  "bump ft t = AList.update t ((case map_of ft t of None \<Rightarrow> 0 | Some c \<Rightarrow> c) + 1) ft"

fun failure_types :: "history_entry list \<Rightarrow> (string \<times> nat) list \<Rightarrow> (string \<times> nat) list" where
  \<comment> \<open>the loop over \<open>past_results\<close>, the dictionary \<open>failure_types\<close> as accumulator\<close>
  "failure_types [] ft = ft"
| "failure_types (r # rs) ft =
     failure_types rs (if is_failure r then bump ft (failure_type_of r) else ft)"

definition sorted_reverse :: "('a \<Rightarrow> nat) \<Rightarrow> 'a list \<Rightarrow> 'a list" where
  \<comment> \<open>\<open>sorted(xs, key=f, reverse=True)\<close>: a stable sort in which elements with equal
      keys keep their original order\<close>
  "sorted_reverse f xs = rev (sort_key f (rev xs))"

definition top_failures :: "history_entry list \<Rightarrow> (string \<times> nat) list" where
  \<comment> \<open>\<open>sorted(failure_types.items(), key=lambda x: x[1], reverse=True)[:3]\<close>\<close>
  "top_failures past_results = take 3 (sorted_reverse snd (failure_types past_results []))"

definition analyze_history :: "history_entry list \<Rightarrow> analysis" where
  "analyze_history past_results =
     (if past_results = [] then
        \<lparr> total_tests = 0, successful_tests = None, failed_tests = None,
          success_rate = 0, common_failures = [],
          recommendations = Some [''No historical data available - start with basic S3 tests''],
          most_recent = None \<rparr>
      else
        let total = length past_results;
            successful = length (filter is_success past_results);
            failed = length (filter is_failure past_results)
        in \<lparr> total_tests = total, successful_tests = Some successful,
             failed_tests = Some failed,
             success_rate = (if total > 0 then of_nat successful / of_nat total else 0),
             common_failures =
               map (\<lambda>f. \<lparr> fs_type = fst f, fs_count = snd f \<rparr>) (top_failures past_results),
             recommendations = None,
             most_recent = Some (last past_results) \<rparr>)"

definition first_failure_index :: "history_entry list \<Rightarrow> string \<Rightarrow> nat" where
  \<comment> \<open>position in the history of the first failed entry of type \<open>t\<close>
      (the length of the history when there is none)\<close>
  "first_failure_index h t =
     length (takeWhile (\<lambda>r. \<not> (is_failure r \<and> failure_type_of r = t)) h)"

definition failure_count :: "history_entry list \<Rightarrow> string \<Rightarrow> nat" where
  "failure_count h t = length (filter (\<lambda>r. is_failure r \<and> failure_type_of r = t) h)"

text \<open>
  The failure types in the order in which the loop first meets them among the failed
  entries, leaving out those in \<open>S\<close>: the keys the loop appends to its dictionary.
\<close>

fun fresh_types :: "history_entry list \<Rightarrow> string set \<Rightarrow> string list" where
  "fresh_types [] S = []"
| "fresh_types (r # rs) S =
     (if is_failure r \<and> failure_type_of r \<notin> S
      then failure_type_of r # fresh_types rs (insert (failure_type_of r) S)
      else fresh_types rs S)"

subsection \<open>Sample histories\<close>

definition failed_entry :: "string \<Rightarrow> history_entry" where
  "failed_entry t = \<lparr> he_iteration_id = PNone, he_timestamp = PNone, he_target = PNone,
     he_chaos_type = PNone, he_outcome = PStr ''failure'', he_test_passed = PBool False,
     he_findings_count = PInt 0, he_failure_type = Some t \<rparr>"

definition tie_history :: "history_entry list" where
  "tie_history = map failed_entry [''b'', ''a'', ''c'', ''c'', ''d'', ''a'']"

section \<open>Strings and dynamic operations\<close>

text \<open>
  A Python string is a list of characters; a character is a code point below 256.
  \<open>str.strip()\<close> removes the characters for which \<open>str.isspace\<close> holds.
\<close>

definition isspace :: "char \<Rightarrow> bool" where
  "isspace c = (of_char c \<in> {9, 10, 11, 12, 13, 28, 29, 30, 31, 32, 133, 160 :: nat})"

definition strip :: "string \<Rightarrow> string" where
  "strip s = rev (dropWhile isspace (rev (dropWhile isspace s)))"

definition startswith :: "string \<Rightarrow> string \<Rightarrow> bool" where
  "startswith s p = (take (length p) s = p)"

definition newline :: char where
  "newline = CHR 0x0A"

fun split_on :: "char \<Rightarrow> string \<Rightarrow> string list" where
  \<comment> \<open>\<open>s.split(sep)\<close> for a separator of one character\<close>
  "split_on sep [] = [[]]"
| "split_on sep (c # cs) =
     (if c = sep then [] # split_on sep cs
      else (case split_on sep cs of [] \<Rightarrow> [[c]] | l # ls \<Rightarrow> (c # l) # ls))"

fun join :: "char \<Rightarrow> string list \<Rightarrow> string" where
  \<comment> \<open>\<open>sep.join(ls)\<close>\<close>
  "join sep [] = []"
| "join sep [l] = l"
| "join sep (l # ls) = l @ sep # join sep ls"

definition lower_char :: "char \<Rightarrow> char" where
  "lower_char c =
     (let n = of_char c :: nat in if 65 \<le> n \<and> n \<le> 90 then char_of (n + 32) else c)"

definition lower :: "string \<Rightarrow> string" where
  \<comment> \<open>\<open>s.lower()\<close> on the letters A to Z; the other characters below 256 that Python
      maps are not ASCII and take no part in the containment tests of the program\<close>
  "lower s = map lower_char s"

fun contains :: "string \<Rightarrow> string \<Rightarrow> bool" where
  \<comment> \<open>\<open>p in s\<close> for strings: \<open>p\<close> is a substring of \<open>s\<close>\<close>
  "contains p [] = (p = [])"
| "contains p (c # cs) = (startswith (c # cs) p \<or> contains p cs)"

definition quoted :: "string \<Rightarrow> string" where
  "quoted s = CHR 0x27 # s @ [CHR 0x27]"

fun type_name :: "pyval \<Rightarrow> string" where
  "type_name PNone = ''NoneType''"
| "type_name (PBool b) = ''bool''"
| "type_name (PInt i) = ''int''"
| "type_name (PStr s) = ''str''"
| "type_name (PList xs) = ''list''"
| "type_name (PDict d) = ''dict''"

definition attribute_error :: "pyval \<Rightarrow> string \<Rightarrow> exn" where
  \<comment> \<open>the exception of \<open>v.name\<close> when \<open>v\<close> has no such attribute\<close>
  "attribute_error v name =
     Exn AttributeError (quoted (type_name v) @ '' object has no attribute '' @ quoted name)"

fun py_truthy :: "pyval \<Rightarrow> bool" where
  "py_truthy PNone = False"
| "py_truthy (PBool b) = b"
| "py_truthy (PInt i) = (i \<noteq> 0)"
| "py_truthy (PStr s) = (s \<noteq> [])"
| "py_truthy (PList xs) = (xs \<noteq> [])"
| "py_truthy (PDict d) = (d \<noteq> [])"

definition py_or :: "pyval \<Rightarrow> pyval \<Rightarrow> pyval" where
  \<comment> \<open>\<open>a or b\<close>\<close>
  "py_or a b = (if py_truthy a then a else b)"

fun py_iter :: "pyval \<Rightarrow> exn + pyval list" where
  \<comment> \<open>the elements a \<open>for\<close> loop sees: list elements, the characters of a string,
      the keys of a dictionary\<close>
  "py_iter (PList xs) = Inr xs"
| "py_iter (PStr s) = Inr (map (\<lambda>c. PStr [c]) s)"
| "py_iter (PDict d) = Inr (map (\<lambda>kv. PStr (fst kv)) d)"
| "py_iter v = Inl (Exn TypeError (quoted (type_name v) @ '' object is not iterable''))"

section \<open>Recommendation Normalizer (agent\_brain.py, \_parse\_bedrock\_response)\<close>

definition fence :: string where
  "fence = [CHR 0x60, CHR 0x60, CHR 0x60]"

definition strip_fence :: "string \<Rightarrow> string" where
  \<comment> \<open>\<open>response.strip()\<close>, then \<open>lines[1:-1]\<close> joined when the text starts with the
      fence and has more than two lines\<close>
  "strip_fence response =
     (let response' = strip response in
      if startswith response' fence then
        (let lines = split_on newline response' in
         if length lines > 2 then join newline (drop 1 (take (length lines - 1) lines))
         else response')
      else response')"

definition required_fields :: "string list" where
  "required_fields = [''target_resource'', ''chaos_type'', ''expected_outcome'',
     ''validation_criteria'', ''compliance_control'']"

fun py_not_in :: "string \<Rightarrow> pyval \<Rightarrow> exn + bool" where
  \<comment> \<open>\<open>field not in recommendation\<close>: key of a dictionary, element of a list,
      substring of a string\<close>
  "py_not_in field (PDict d) = Inr (\<not> has_key d field)"
| "py_not_in field (PList xs) = Inr (PStr field \<notin> set xs)"
| "py_not_in field (PStr s) = Inr (\<not> contains field s)"
| "py_not_in field v =
     Inl (Exn TypeError (''argument of type '' @ quoted (type_name v) @ '' is not iterable''))"

fun py_setitem :: "pyval \<Rightarrow> string \<Rightarrow> pyval \<Rightarrow> exn + pyval" where
  \<comment> \<open>\<open>recommendation[field] = v\<close> with a string \<open>field\<close>\<close>
  "py_setitem (PDict d) field v = Inr (PDict (dict_set d field v))"
| "py_setitem (PList xs) field v =
     Inl (Exn TypeError ''list indices must be integers or slices, not str'')"
| "py_setitem u field v =
     Inl (Exn TypeError (quoted (type_name u) @ '' object does not support item assignment''))"

fun fill_missing :: "string list \<Rightarrow> pyval \<Rightarrow> exn + pyval" where
  \<comment> \<open>the loop over \<open>required_fields\<close>\<close>
  "fill_missing [] recommendation = Inr recommendation"
| "fill_missing (field # rest) recommendation =
     (case py_not_in field recommendation of
        Inl e \<Rightarrow> Inl e
      | Inr False \<Rightarrow> fill_missing rest recommendation
      | Inr True \<Rightarrow>
          (case py_setitem recommendation field (PStr ''Not specified'') of
             Inl e \<Rightarrow> Inl e
           | Inr recommendation' \<Rightarrow> fill_missing rest recommendation'))"

definition parse_fallback :: "string \<Rightarrow> pydict" where
  \<comment> \<open>the dictionary returned by the handler of \<open>json.JSONDecodeError\<close>\<close>
  "parse_fallback err =
     [(''target_resource'', PStr ''s3-bucket-default''),
      (''chaos_type'', PStr ''make_s3_public''),
      (''expected_outcome'', PStr ''Detection by security controls''),
      (''validation_criteria'', PStr ''Config compliance check fails''),
      (''compliance_control'', PStr ''SOC2:CC6.6''),
      (''reasoning'', PStr ''Fallback due to parse error''),
      (''error'', PStr err)]"

text \<open>
  \<open>json.loads\<close> is a parameter: it returns the parsed value, or the text of the
  \<open>JSONDecodeError\<close> it raises. Only that exception is handled inside
  \<open>_parse_bedrock_response\<close>; a \<open>TypeError\<close> of the loop leaves the function.
\<close>

definition parse_bedrock_response :: "(string \<Rightarrow> string + pyval) \<Rightarrow> string \<Rightarrow> exn + pyval" where
  "parse_bedrock_response json_loads response =
     (case json_loads (strip_fence response) of
        Inl err \<Rightarrow> Inr (PDict (parse_fallback err))
      | Inr recommendation \<Rightarrow> fill_missing required_fields recommendation)"


subsection \<open>Sample responses\<close>



section \<open>Reasoning stage (agent\_brain.py, reason\_next\_chaos; orchestrator.py, \_step\_reason)\<close>

record reason_context =
  history_analysis :: analysis
  semgrep_findings :: pyval
  previous_tests :: "history_entry list"

definition fallback_recommendation :: pydict where
  "fallback_recommendation =
     [(''target_resource'', PStr ''s3-chaossec-test-bucket''),
      (''chaos_type'', PStr ''make_s3_public''),
      (''expected_outcome'',
         PStr ''AWS Config should detect non-compliance, security alerts should fire''),
      (''validation_criteria'',
         PStr ''Config rule violation detected, CloudWatch alarm triggered''),
      (''compliance_control'', PStr ''SOC2:CC6.6 - Logical Access Controls''),
      (''reasoning'', PStr ''Starting with fundamental S3 security test (fallback logic)''),
      (''fallback'', PBool True)]"

fun is_dict :: "pyval \<Rightarrow> bool" where
  "is_dict (PDict d) = True"
| "is_dict v = False"

definition build_reasoning_prompt_raises :: "reason_context \<Rightarrow> exn option" where
  \<comment> \<open>the exception of \<open>_build_reasoning_prompt\<close>, if it raises: the comprehension
      \<open>[f for f in semgrep_findings if f.get('severity') == 'ERROR']\<close> needs every
      finding to be a dictionary. The prompt text itself is not modelled.\<close>
  "build_reasoning_prompt_raises ctx =
     (if py_truthy (semgrep_findings ctx) then
        (case py_iter (semgrep_findings ctx) of
           Inl e \<Rightarrow> Some e
         | Inr findings \<Rightarrow>
             (case filter (\<lambda>f. \<not> is_dict f) findings of
                [] \<Rightarrow> None
              | f # _ \<Rightarrow> Some (attribute_error f ''get'')))
      else None)"

text \<open>
  \<open>call_bedrock\<close> is the decision-maker: \<open>_call_bedrock\<close> applied to the prompt, which
  is a function of the context, so the parameter takes the context. It returns the
  response text or raises. Every exception inside the \<open>try\<close> of \<open>reason_next_chaos\<close>
  selects the fallback recommendation; that includes the \<open>AttributeError\<close> of
  \<open>recommendation.get\<close> when the normalizer returned a value that is not a dictionary.
\<close>

definition reason_next_chaos ::
  "(reason_context \<Rightarrow> exn + string) \<Rightarrow> (string \<Rightarrow> string + pyval) \<Rightarrow> reason_context
   \<Rightarrow> exn + pydict" where
  "reason_next_chaos call_bedrock json_loads ctx =
     (case build_reasoning_prompt_raises ctx of
        Some e \<Rightarrow> Inl e
      | None \<Rightarrow>
          (case call_bedrock ctx of
             Inl e \<Rightarrow> Inr fallback_recommendation
           | Inr response \<Rightarrow>
               (case parse_bedrock_response json_loads response of
                  Inl e \<Rightarrow> Inr fallback_recommendation
                | Inr (PDict recommendation) \<Rightarrow> Inr recommendation
                | Inr _ \<Rightarrow> Inr fallback_recommendation)))"

definition step_reason ::
  "(reason_context \<Rightarrow> exn + string) \<Rightarrow> (string \<Rightarrow> string + pyval) \<Rightarrow> pydict
   \<Rightarrow> history_entry list \<Rightarrow> exn + pydict" where
  "step_reason call_bedrock json_loads scan_result history =
     reason_next_chaos call_bedrock json_loads
       \<lparr> history_analysis = analyze_history history,
         semgrep_findings = dict_get_default scan_result ''combined_findings'' (PList []),
         previous_tests = (if history \<noteq> [] then drop (length history - 5) history else []) \<rparr>"

section \<open>Inject stage (aws\_handler.py, orchestrator.py)\<close>

text \<open>
  The S3 client: each call returns normally (\<open>None\<close>) or raises.
\<close>

record s3_client =
  delete_public_access_block :: "pyval \<Rightarrow> exn option"
  put_public_access_block :: "pyval \<Rightarrow> exn option"
  put_bucket_acl :: "pyval \<Rightarrow> string \<Rightarrow> exn option"

definition simulate_s3_bucket_misconfiguration ::
  "s3_client \<Rightarrow> pyval \<Rightarrow> bool \<Rightarrow> bool \<Rightarrow> exn + pydict" where
  "simulate_s3_bucket_misconfiguration s3 bucket_name make_public safety_mode =
     (if safety_mode then
        Inr [(''bucket'', bucket_name),
             (''action'', PStr (if make_public then ''make_public'' else ''fix_public'')),
             (''applied'', PBool False),
             (''safety_mode'', PBool True),
             (''simulated_outcome'', PStr ''success'')]
      else
        (let raised =
               (if make_public then
                  (case delete_public_access_block s3 bucket_name of
                     Some e \<Rightarrow> Some e
                   | None \<Rightarrow> put_bucket_acl s3 bucket_name ''public-read'')
                else
                  (case put_public_access_block s3 bucket_name of
                     Some e \<Rightarrow> Some e
                   | None \<Rightarrow> put_bucket_acl s3 bucket_name ''private''))
         in case raised of
              None \<Rightarrow>
                Inr [(''bucket'', bucket_name),
                     (''action'', PStr (if make_public then ''made_public'' else ''fixed_public'')),
                     (''applied'', PBool True),
                     (''safety_mode'', PBool False),
                     (''outcome'', PStr ''success'')]
            | Some e \<Rightarrow>
                if exn_kind e = ClientError then
                  Inr [(''bucket'', bucket_name),
                       (''action'', PStr (if make_public then ''make_public'' else ''fix_public'')),
                       (''applied'', PBool False),
                       (''error'', PStr (exn_text e)),
                       (''outcome'', PStr ''failure'')]
                else Inl e))"

definition step_inject_chaos :: "s3_client \<Rightarrow> bool \<Rightarrow> pydict \<Rightarrow> exn + pydict" where
  "step_inject_chaos s3 safety_mode reasoning_result =
     (let chaos_type = dict_get_default reasoning_result ''chaos_type'' (PStr ''make_s3_public'');
          target = dict_get_default reasoning_result ''target_resource''
                     (PStr ''chaossec-test-bucket'')
      in case chaos_type of
           PStr ct \<Rightarrow>
             if contains ''public'' (lower ct) \<or> contains ''s3'' (lower ct) then
               (case simulate_s3_bucket_misconfiguration s3 target True safety_mode of
                  Inl e \<Rightarrow> Inl e
                | Inr result \<Rightarrow>
                    Inr (dict_set (dict_set result ''chaos_type'' chaos_type) ''reasoning''
                           (dict_get_default reasoning_result ''reasoning'' (PStr ''''))))
             else
               Inr [(''chaos_type'', PStr ''make_s3_public''),
                    (''target'', target),
                    (''applied'', PBool False),
                    (''safety_mode'', PBool safety_mode),
                    (''note'', PStr ''Fallback to S3 test'')]
         | v \<Rightarrow> Inl (attribute_error v ''lower''))"

section \<open>Monitor and validate stages (orchestrator.py)\<close>

text \<open>
  The three read-only AWS queries, each as the list its handler computes inside its
  \<open>try\<close> for the given resource, or the exception raised there.
\<close>

record monitoring =
  cloudwatch_datapoints :: "pyval \<Rightarrow> exn + pyval list"
  config_compliance :: "pyval \<Rightarrow> exn + pydict list"
  cloudtrail_events :: "pyval \<Rightarrow> exn + pydict list"

definition except_client_error :: "exn + 'a list \<Rightarrow> exn + 'a list" where
  \<comment> \<open>\<open>except ClientError: return []\<close>\<close>
  "except_client_error r =
     (case r of
        Inl e \<Rightarrow> if exn_kind e = ClientError then Inr [] else Inl e
      | Inr xs \<Rightarrow> Inr xs)"

definition step_monitor :: "monitoring \<Rightarrow> string \<Rightarrow> pydict \<Rightarrow> exn + pydict" where
  "step_monitor aws now chaos_result =
     (let target = py_or (dict_get chaos_result ''bucket'')
                         (dict_get_default chaos_result ''target'' (PStr ''unknown''))
      in case except_client_error (cloudwatch_datapoints aws target) of
           Inl e \<Rightarrow> Inl e
         | Inr metrics \<Rightarrow>
             (case except_client_error (config_compliance aws target) of
                Inl e \<Rightarrow> Inl e
              | Inr compliance \<Rightarrow>
                  (case except_client_error (cloudtrail_events aws target) of
                     Inl e \<Rightarrow> Inl e
                   | Inr events \<Rightarrow>
                       Inr [(''target'', target),
                            (''metrics'', PList metrics),
                            (''compliance'', PList (map PDict compliance)),
                            (''events'', PList (map PDict events)),
                            (''monitored_at'', PStr now)])))"

fun any_non_compliant :: "pyval list \<Rightarrow> exn + bool" where
  \<comment> \<open>\<open>any(c.get('compliance_type') == 'NON_COMPLIANT' for c in compliance_data)\<close>;
      \<open>any\<close> stops at the first true element\<close>
  "any_non_compliant [] = Inr False"
| "any_non_compliant (PDict c # cs) =
     (if dict_get c ''compliance_type'' = PStr ''NON_COMPLIANT'' then Inr True
      else any_non_compliant cs)"
| "any_non_compliant (v # cs) = Inl (attribute_error v ''get'')"

text \<open>
  \<open>now\<close> is the reading of \<open>datetime.utcnow().isoformat()\<close> taken by the stage.
  \<open>len(compliance_data)\<close> is the number of elements the iteration has seen.
\<close>

definition step_validate :: "bool \<Rightarrow> string \<Rightarrow> pydict \<Rightarrow> pydict \<Rightarrow> exn + pydict" where
  "step_validate safety_mode now monitoring_result reasoning_result =
     (let expected_outcome = dict_get_default reasoning_result ''expected_outcome'' (PStr '''');
          validation_criteria =
            dict_get_default reasoning_result ''validation_criteria'' (PStr '''');
          compliance_data = dict_get_default monitoring_result ''compliance'' (PList [])
      in case py_iter compliance_data of
           Inl e \<Rightarrow> Inl e
         | Inr cs \<Rightarrow>
             (case any_non_compliant cs of
                Inl e \<Rightarrow> Inl e
              | Inr non_compliant_detected \<Rightarrow>
                  (let test_passed = (if safety_mode then True else non_compliant_detected);
                       outcome = (if safety_mode then ''success_simulated''
                                  else if test_passed then ''success'' else ''failure'')
                   in Inr [(''outcome'', PStr outcome),
                           (''test_passed'', PBool test_passed),
                           (''expected_outcome'', expected_outcome),
                           (''validation_criteria'', validation_criteria),
                           (''non_compliant_detected'', PBool non_compliant_detected),
                           (''compliance_count'', PInt (int (length cs))),
                           (''validated_at'', PStr now)])))"

section \<open>Orchestrator state and the remaining stages (orchestrator.py)\<close>

text \<open>
  The runtime state of the orchestrator object, and the file system that the learn
  stage writes to. \<open>'fs\<close> is whatever the file system is.
\<close>

record 'fs orch_state =
  current_twin_id :: pyval
  execution_history :: "history_entry list"
  file_system :: 'fs

record iteration_result =
  ir_iteration_id :: string
  ir_started_at :: string
  ir_steps :: "(string \<times> pydict) list"
  ir_completed_at :: "string option"
  ir_status :: "string option"
  ir_error :: "string option"

definition create_digital_twin :: "pyval \<Rightarrow> exn + pyval \<Rightarrow> pydict" where
  \<comment> \<open>system\_initiative.py: \<open>response\<close> is the outcome of \<open>_make_request\<close>; the two
      resources are the ones \<open>_step_simulate\<close> lists. Every exception is handled.\<close>
  "create_digital_twin workspace_id response =
     (case response of
        Inr (PDict result) \<Rightarrow>
          [(''twin_id'', py_or (dict_get result ''twin_id'') (dict_get result ''id'')),
           (''status'', dict_get_default result ''status'' (PStr ''created'')),
           (''resource_count'', PInt 2),
           (''workspace_id'', workspace_id)]
      | Inr v \<Rightarrow>
          [(''twin_id'', PNone), (''status'', PStr ''error''),
           (''error'', PStr (exn_text (attribute_error v ''get'')))]
      | Inl e \<Rightarrow>
          [(''twin_id'', PNone), (''status'', PStr ''error''), (''error'', PStr (exn_text e))])"

definition step_simulate ::
  "pyval \<Rightarrow> exn + pyval \<Rightarrow> 'fs orch_state \<Rightarrow> (exn + pydict) \<times> 'fs orch_state" where
  "step_simulate workspace_id response s =
     (let twin_result = create_digital_twin workspace_id response
      in (Inr twin_result,
          if py_truthy (dict_get twin_result ''twin_id'')
          then s\<lparr>current_twin_id := dict_get twin_result ''twin_id''\<rparr> else s))"

text \<open>
  The scanner: \<open>scan_self\<close> and \<open>scan_iac_directory\<close> return a result dictionary or
  raise; \<open>iac_exists\<close> tells whether the \<open>infrastructure\<close> directory under the project
  root exists. All three take the project root.
\<close>

record scanner =
  scan_self :: "string \<Rightarrow> exn + pydict"
  iac_exists :: "string \<Rightarrow> bool"
  scan_iac_directory :: "string \<Rightarrow> exn + pydict"

definition findings_of :: "pydict \<Rightarrow> exn + pyval list" where
  \<comment> \<open>the elements \<open>extend(scan.get('findings', []))\<close> appends\<close>
  "findings_of scan = py_iter (dict_get_default scan ''findings'' (PList []))"

definition step_scan :: "scanner \<Rightarrow> string option \<Rightarrow> exn + pydict" where
  "step_scan semgrep project_root =
     (case project_root of
        None \<Rightarrow>
          Inr [(''self_scan'', PNone), (''iac_scan'', PNone),
               (''combined_findings'', PList []), (''total_findings'', PInt 0)]
      | Some dir \<Rightarrow>
          if dir = [] then
            Inr [(''self_scan'', PNone), (''iac_scan'', PNone),
                 (''combined_findings'', PList []), (''total_findings'', PInt 0)]
          else
            (case scan_self semgrep dir of
               Inl e \<Rightarrow> Inl e
             | Inr self_scan \<Rightarrow>
                 (case findings_of self_scan of
                    Inl e \<Rightarrow> Inl e
                  | Inr found \<Rightarrow>
                      if iac_exists semgrep dir then
                        (case scan_iac_directory semgrep dir of
                           Inl e \<Rightarrow> Inl e
                         | Inr iac_scan \<Rightarrow>
                             (case findings_of iac_scan of
                                Inl e \<Rightarrow> Inl e
                              | Inr found' \<Rightarrow>
                                  Inr [(''self_scan'', PDict self_scan),
                                       (''iac_scan'', PDict iac_scan),
                                       (''combined_findings'', PList (found @ found')),
                                       (''total_findings'',
                                          PInt (int (length (found @ found'))))]))
                      else
                        Inr [(''self_scan'', PDict self_scan), (''iac_scan'', PNone),
                             (''combined_findings'', PList found),
                             (''total_findings'', PInt (int (length found)))])))"

text \<open>The evidence sink.\<close>

record vanta =
  create_evidence_package :: "string \<Rightarrow> pydict \<Rightarrow> pyval \<Rightarrow> pyval \<Rightarrow> exn + pydict"
  upload_evidence_package :: "pydict \<Rightarrow> exn + pyval list"

definition step_report ::
  "vanta \<Rightarrow> string \<Rightarrow> string \<Rightarrow> pydict \<Rightarrow> pydict \<Rightarrow> pydict \<Rightarrow> pydict \<Rightarrow> exn + pydict" where
  "step_report vanta_client correlation_id now chaos_result scan_result monitoring_result
       validation_result =
     (case create_evidence_package vanta_client correlation_id scan_result
             (dict_get_default monitoring_result ''metrics'' (PList []))
             (dict_get_default validation_result ''outcome'' (PStr ''unknown'')) of
        Inl e \<Rightarrow> Inl e
      | Inr evidence_package \<Rightarrow>
          (case upload_evidence_package vanta_client evidence_package of
             Inl e \<Rightarrow> Inl e
           | Inr upload_results \<Rightarrow>
               (case map_of evidence_package ''package_id'' of
                  None \<Rightarrow> Inl (Exn KeyError (quoted ''package_id''))
                | Some package_id \<Rightarrow>
                    Inr [(''package_id'', package_id),
                         (''evidence_count'', PInt (int (length upload_results))),
                         (''upload_results'', PList upload_results),
                         (''reported_at'', PStr now)])))"

definition step_of :: "iteration_result \<Rightarrow> string \<Rightarrow> pydict" where
  \<comment> \<open>\<open>iteration_result.get('steps', {}).get(name, {})\<close>\<close>
  "step_of iteration name = (case map_of (ir_steps iteration) name of None \<Rightarrow> [] | Some d \<Rightarrow> d)"

definition history_entry_of :: "iteration_result \<Rightarrow> history_entry" where
  "history_entry_of iteration =
     \<lparr> he_iteration_id = PStr (ir_iteration_id iteration),
       he_timestamp = PStr (ir_started_at iteration),
       he_target = dict_get (step_of iteration ''reason'') ''target_resource'',
       he_chaos_type = dict_get (step_of iteration ''reason'') ''chaos_type'',
       he_outcome = dict_get (step_of iteration ''validate'') ''outcome'',
       he_test_passed = dict_get (step_of iteration ''validate'') ''test_passed'',
       he_findings_count = dict_get_default (step_of iteration ''scan'') ''total_findings'' (PInt 0),
       he_failure_type = None \<rparr>"

text \<open>
  \<open>write_history\<close> is \<open>open(history_file, 'w')\<close> followed by \<open>json.dump\<close> of the whole
  history: given the history to write and the file system it returns the exception it
  raised, if any, and the file system it leaves behind. \<open>history_file\<close> is the path
  \<open>Path.cwd() / 'chaossec_history.json'\<close> as a string.
\<close>

definition step_learn ::
  "(history_entry list \<Rightarrow> 'fs \<Rightarrow> exn option \<times> 'fs) \<Rightarrow> string \<Rightarrow> iteration_result
   \<Rightarrow> 'fs orch_state \<Rightarrow> (exn + pydict) \<times> 'fs orch_state" where
  "step_learn write_history history_file iteration s =
     (let history = execution_history s @ [history_entry_of iteration];
          written = write_history history (file_system s)
      in (Inr [(''stored'', PBool True),
               (''history_length'', PInt (int (length history))),
               (''history_file'', PStr history_file)],
          s\<lparr>execution_history := history, file_system := snd written\<rparr>))"

section \<open>Iteration Sequencer (orchestrator.py, \_run\_single\_iteration)\<close>

text \<open>
  The eight stage methods of the orchestrator object. Each takes the state, returns a
  result dictionary or raises, and leaves a state behind. The sequencer is written
  over any eight such methods (the tests of the repository replace them).
\<close>

record 's stages =
  st_simulate :: "'s \<Rightarrow> (exn + pydict) \<times> 's"
  st_scan :: "string option \<Rightarrow> 's \<Rightarrow> (exn + pydict) \<times> 's"
  st_reason :: "pydict \<Rightarrow> 's \<Rightarrow> (exn + pydict) \<times> 's"
  st_inject_chaos :: "pydict \<Rightarrow> 's \<Rightarrow> (exn + pydict) \<times> 's"
  st_monitor :: "pydict \<Rightarrow> 's \<Rightarrow> (exn + pydict) \<times> 's"
  st_validate :: "pydict \<Rightarrow> pydict \<Rightarrow> 's \<Rightarrow> (exn + pydict) \<times> 's"
  st_report :: "pydict \<Rightarrow> pydict \<Rightarrow> pydict \<Rightarrow> pydict \<Rightarrow> 's \<Rightarrow> (exn + pydict) \<times> 's"
  st_learn :: "iteration_result \<Rightarrow> 's \<Rightarrow> (exn + pydict) \<times> 's"


definition add_step :: "iteration_result \<Rightarrow> string \<Rightarrow> pydict \<Rightarrow> iteration_result" where
  \<comment> \<open>\<open>iteration_result["steps"][name] = result\<close>\<close>
  "add_step iteration name result =
     iteration\<lparr>ir_steps := AList.update name result (ir_steps iteration)\<rparr>"

text \<open>
  The body of the \<open>try\<close> up to the last stage: the iteration result with the steps
  attached so far, the exception that ended the body (if any), and the state.
\<close>

definition run_stages ::
  "'s stages \<Rightarrow> iteration_result \<Rightarrow> string option \<Rightarrow> 's
   \<Rightarrow> (iteration_result \<times> exn option) \<times> 's" where
  "run_stages st ir0 project_root s0 =
     (case st_simulate st s0 of
        (Inl e, s1) \<Rightarrow> ((ir0, Some e), s1)
      | (Inr simulation_result, s1) \<Rightarrow>
     (let ir1 = add_step ir0 ''simulate'' simulation_result in
      case st_scan st project_root s1 of
        (Inl e, s2) \<Rightarrow> ((ir1, Some e), s2)
      | (Inr scan_result, s2) \<Rightarrow>
     (let ir2 = add_step ir1 ''scan'' scan_result in
      case st_reason st scan_result s2 of
        (Inl e, s3) \<Rightarrow> ((ir2, Some e), s3)
      | (Inr reasoning_result, s3) \<Rightarrow>
     (let ir3 = add_step ir2 ''reason'' reasoning_result in
      case st_inject_chaos st reasoning_result s3 of
        (Inl e, s4) \<Rightarrow> ((ir3, Some e), s4)
      | (Inr chaos_result, s4) \<Rightarrow>
     (let ir4 = add_step ir3 ''chaos'' chaos_result in
      case st_monitor st chaos_result s4 of
        (Inl e, s5) \<Rightarrow> ((ir4, Some e), s5)
      | (Inr monitoring_result, s5) \<Rightarrow>
     (let ir5 = add_step ir4 ''monitor'' monitoring_result in
      case st_validate st monitoring_result reasoning_result s5 of
        (Inl e, s6) \<Rightarrow> ((ir5, Some e), s6)
      | (Inr validation_result, s6) \<Rightarrow>
     (let ir6 = add_step ir5 ''validate'' validation_result in
      case st_report st chaos_result scan_result monitoring_result validation_result s6 of
        (Inl e, s7) \<Rightarrow> ((ir6, Some e), s7)
      | (Inr report_result, s7) \<Rightarrow>
     (let ir7 = add_step ir6 ''report'' report_result in
      case st_learn st ir7 s7 of
        (Inl e, s8) \<Rightarrow> ((ir7, Some e), s8)
      | (Inr learn_result, s8) \<Rightarrow>
          ((add_step ir7 ''learn'' learn_result, None), s8)))))))))"

text \<open>
  The clock readings of one iteration: \<open>ic_time\<close> is the decimal text of
  \<open>int(time.time())\<close>, the other two are \<open>datetime.utcnow().isoformat()\<close> at the start
  and at the end.
\<close>

record iteration_clock =
  ic_time :: string
  ic_started :: string
  ic_completed :: string

definition new_iteration :: "iteration_clock \<Rightarrow> iteration_result" where
  \<comment> \<open>the dictionary \<open>iteration_result\<close> before the \<open>try\<close>\<close>
  "new_iteration clock =
     \<lparr> ir_iteration_id = ''iter-'' @ ic_time clock, ir_started_at = ic_started clock,
       ir_steps = [], ir_completed_at = None, ir_status = None, ir_error = None \<rparr>"

definition run_single_iteration ::
  "'s stages \<Rightarrow> iteration_clock \<Rightarrow> string option \<Rightarrow> 's \<Rightarrow> iteration_result \<times> 's" where
  "run_single_iteration st clock project_root s =
     (case run_stages st (new_iteration clock) project_root s of
           ((iteration, None), s') \<Rightarrow>
             (iteration\<lparr>ir_completed_at := Some (ic_completed clock),
                         ir_status := Some ''success''\<rparr>, s')
         | ((iteration, Some e), s') \<Rightarrow>
             (iteration\<lparr>ir_status := Some ''error'',
                         ir_error := Some (exn_text e),
                         ir_completed_at := Some (ic_completed clock)\<rparr>, s'))"

section \<open>The orchestrator's own stages\<close>

record 'fs environment =
  env_safety_mode :: bool
  env_correlation_id :: string
  env_workspace_id :: pyval
  env_twin_response :: "exn + pyval"
  env_semgrep :: scanner
  env_call_bedrock :: "reason_context \<Rightarrow> exn + string"
  env_json_loads :: "string \<Rightarrow> string + pyval"
  env_s3 :: s3_client
  env_aws :: monitoring
  env_vanta :: vanta
  env_write_history :: "history_entry list \<Rightarrow> 'fs \<Rightarrow> exn option \<times> 'fs"
  env_history_file :: string
  env_now_monitored :: string
  env_now_validated :: string
  env_now_reported :: string

definition orchestrator_stages :: "'fs environment \<Rightarrow> 'fs orch_state stages" where
  "orchestrator_stages env =
     \<lparr> st_simulate = step_simulate (env_workspace_id env) (env_twin_response env),
       st_scan = (\<lambda>project_root s. (step_scan (env_semgrep env) project_root, s)),
       st_reason = (\<lambda>scan_result s.
          (step_reason (env_call_bedrock env) (env_json_loads env) scan_result
             (execution_history s), s)),
       st_inject_chaos = (\<lambda>reasoning_result s.
          (step_inject_chaos (env_s3 env) (env_safety_mode env) reasoning_result, s)),
       st_monitor = (\<lambda>chaos_result s.
          (step_monitor (env_aws env) (env_now_monitored env) chaos_result, s)),
       st_validate = (\<lambda>monitoring_result reasoning_result s.
          (step_validate (env_safety_mode env) (env_now_validated env) monitoring_result
             reasoning_result, s)),
       st_report = (\<lambda>chaos_result scan_result monitoring_result validation_result s.
          (step_report (env_vanta env) (env_correlation_id env) (env_now_reported env)
             chaos_result scan_result monitoring_result validation_result, s)),
       st_learn = step_learn (env_write_history env) (env_history_file env) \<rparr>"

section \<open>Run Loop (orchestrator.py, run\_chaossec\_loop)\<close>

record loop_results =
  lr_started_at :: string
  lr_correlation_id :: string
  lr_iterations :: "iteration_result list"
  lr_safety_mode :: bool
  lr_completed_at :: "string option"
  lr_status :: "string option"
  lr_total_iterations :: "nat option"
  lr_summary :: "string option"
  lr_error :: "string option"

text \<open>
  The \<open>for\<close> loop. \<open>sequencer i\<close> is the call of \<open>_run_single_iteration\<close> in round \<open>i\<close>;
  here it may raise. The loop returns the results appended so far, the exception that
  ended it (if any), and the state. The pause between rounds changes nothing.
\<close>

fun loop_iterations ::
  "(nat \<Rightarrow> 's \<Rightarrow> (exn + iteration_result) \<times> 's) \<Rightarrow> nat list \<Rightarrow> iteration_result list \<Rightarrow> 's
   \<Rightarrow> (iteration_result list \<times> exn option) \<times> 's" where
  "loop_iterations sequencer [] iterations s = ((iterations, None), s)"
| "loop_iterations sequencer (i # rounds) iterations s =
     (case sequencer i s of
        (Inl e, s') \<Rightarrow> ((iterations, Some e), s')
      | (Inr iteration_result, s') \<Rightarrow>
          loop_iterations sequencer rounds (iterations @ [iteration_result]) s')"

text \<open>
  \<open>generate_report_summary\<close> is the summary call of the decision-maker; it returns the
  summary text or raises. \<open>started\<close> and \<open>completed\<close> are the two clock readings.
\<close>

definition run_chaossec_loop ::
  "string \<Rightarrow> bool \<Rightarrow> (nat \<Rightarrow> 's \<Rightarrow> (exn + iteration_result) \<times> 's)
   \<Rightarrow> (loop_results \<Rightarrow> exn + string) \<Rightarrow> string \<Rightarrow> string \<Rightarrow> int \<Rightarrow> 's
   \<Rightarrow> loop_results \<times> 's" where
  "run_chaossec_loop correlation_id safety_mode sequencer generate_report_summary
       started completed max_iterations s =
     (let loop_results0 =
            \<lparr> lr_started_at = started, lr_correlation_id = correlation_id,
              lr_iterations = [], lr_safety_mode = safety_mode, lr_completed_at = None,
              lr_status = None, lr_total_iterations = None, lr_summary = None,
              lr_error = None \<rparr>
      in case loop_iterations sequencer [0..<nat max_iterations] [] s of
           ((iterations, Some e), s') \<Rightarrow>
             (loop_results0\<lparr>lr_iterations := iterations, lr_status := Some ''error'',
                             lr_error := Some (exn_text e)\<rparr>, s')
         | ((iterations, None), s') \<Rightarrow>
             (let loop_results1 =
                    loop_results0\<lparr>lr_iterations := iterations,
                                    lr_completed_at := Some completed,
                                    lr_status := Some ''completed'',
                                    lr_total_iterations := Some (length iterations)\<rparr>
              in case generate_report_summary loop_results1 of
                   Inl e \<Rightarrow>
                     (loop_results1\<lparr>lr_status := Some ''error'',
                                     lr_error := Some (exn_text e)\<rparr>, s')
                 | Inr summary \<Rightarrow> (loop_results1\<lparr>lr_summary := Some summary\<rparr>, s')))"

text \<open>The orchestrator's sequencer in round \<open>i\<close>, with the environment of that round.\<close>

definition orchestrator_sequencer ::
  "(nat \<Rightarrow> 'fs environment) \<Rightarrow> (nat \<Rightarrow> iteration_clock) \<Rightarrow> string option \<Rightarrow> nat
   \<Rightarrow> 'fs orch_state \<Rightarrow> (exn + iteration_result) \<times> 'fs orch_state" where
  "orchestrator_sequencer env clock project_root i s =
     (case run_single_iteration (orchestrator_stages (env i)) (clock i) project_root s of
        (iteration, s') \<Rightarrow> (Inr iteration, s'))"

subsection \<open>Sample monitoring results\<close>

definition compliant_monitoring :: pydict where
  "compliant_monitoring =
     [(''target'', PStr ''chaossec-test-bucket''), (''metrics'', PList []),
      (''compliance'', PList [PDict [(''compliance_type'', PStr ''NON_COMPLIANT'')]]),
      (''events'', PList []), (''monitored_at'', PStr ''2024-01-01T00:00:00'')]"

definition bad_monitoring :: pydict where
  "bad_monitoring = [(''compliance'', PInt 0)]"

subsection \<open>Sample collaborators\<close>


definition denied_s3 :: s3_client where
  "denied_s3 =
     \<lparr> delete_public_access_block =
         (\<lambda>bucket. Some (Exn ClientError ''An error occurred (AccessDenied)'')),
       put_public_access_block = (\<lambda>bucket. None),
       put_bucket_acl = (\<lambda>bucket acl. None) \<rparr>"

definition failing_write :: "history_entry list \<Rightarrow> history_entry list option
    \<Rightarrow> exn option \<times> history_entry list option" where
  "failing_write history fs = (Some (Exn OtherException ''[Errno 13] Permission denied''), fs)"

definition simulated_iteration :: iteration_result where
  "simulated_iteration =
     \<lparr> ir_iteration_id = ''iter-1700000000'', ir_started_at = ''2024-01-01T00:00:00'',
       ir_steps =
         [(''reason'', fallback_recommendation),
          (''validate'',
            [(''outcome'', PStr ''success_simulated''), (''test_passed'', PBool True),
             (''expected_outcome'',
                PStr ''AWS Config should detect non-compliance, security alerts should fire''),
             (''validation_criteria'',
                PStr ''Config rule violation detected, CloudWatch alarm triggered''),
             (''non_compliant_detected'', PBool False), (''compliance_count'', PInt 0),
             (''validated_at'', PStr ''2024-01-01T00:00:05'')])],
       ir_completed_at = None, ir_status = None, ir_error = None \<rparr>"

subsection \<open>Sample stages\<close>



section \<open>Properties of the history analysis\<close>

lemma sorted_reverse_set: "set (sorted_reverse f xs) = set xs"
  by (simp add: sorted_reverse_def)

lemma sorted_reverse_length: "length (sorted_reverse f xs) = length xs"
  by (simp add: sorted_reverse_def)

lemma sorted_reverse_distinct: "distinct (sorted_reverse f xs) = distinct xs"
  by (simp add: sorted_reverse_def)

lemma sorted_reverse_desc: "sorted_wrt (\<lambda>x y. f y \<le> f x) (sorted_reverse f xs)"
proof -
  have "sorted (map f (sort_key f (rev xs)))" by simp
  then have "sorted_wrt (\<lambda>x y. f x \<le> f y) (sort_key f (rev xs))"
    by (simp add: sorted_map)
  then show ?thesis
    by (simp add: sorted_reverse_def sorted_wrt_rev)
qed

lemma sorted_reverse_stable:
  "filter (\<lambda>y. f y = k) (sorted_reverse f xs) = filter (\<lambda>y. f y = k) xs"
  by (simp add: sorted_reverse_def rev_filter [symmetric] sort_key_stable)

lemma filter_sorted_wrt_nth:
  "sorted_wrt R (filter P ys) \<Longrightarrow> i < j \<Longrightarrow> j < length ys \<Longrightarrow> P (ys ! i) \<Longrightarrow> P (ys ! j)
   \<Longrightarrow> R (ys ! i) (ys ! j)"
proof (induction ys arbitrary: i j)
  case Nil
  then show ?case by simp
next
  case (Cons y ys)
  show ?case
  proof (cases i)
    case 0
    with Cons.prems obtain j' where j': "j = Suc j'" "j' < length ys"
      by (cases j) auto
    from Cons.prems 0 have "P y" by simp
    with Cons.prems(1) have "\<forall>z \<in> set (filter P ys). R y z" by simp
    moreover from Cons.prems j' have "ys ! j' \<in> set (filter P ys)" by simp
    ultimately show ?thesis using 0 j' by simp
  next
    case (Suc i')
    with Cons.prems obtain j' where j': "j = Suc j'" "j' < length ys" "i' < j'"
      by (cases j) auto
    from Cons.prems(1) have "sorted_wrt R (filter P ys)"
      by (cases "P y") simp_all
    with Cons.IH [of i' j'] Cons.prems Suc j' show ?thesis by simp
  qed
qed

lemma bump_keys:
  "map fst (bump ft t) = (if t \<in> set (map fst ft) then map fst ft else map fst ft @ [t])"
  by (simp add: bump_def update_keys)

lemma failure_types_keys:
  "map fst (failure_types h ft) = map fst ft @ fresh_types h (set (map fst ft))"
proof (induction h arbitrary: ft)
  case Nil
  then show ?case by simp
next
  case (Cons r rs)
  show ?case
  proof (cases "is_failure r")
    case False
    then show ?thesis using Cons.IH [of ft] by simp
  next
    case True
    show ?thesis
    proof (cases "failure_type_of r \<in> set (map fst ft)")
      case True
      then have "set (map fst (bump ft (failure_type_of r))) = set (map fst ft)"
        by (simp only: bump_keys if_True)
      with True \<open>is_failure r\<close> Cons.IH [of "bump ft (failure_type_of r)"] show ?thesis
        by (simp add: bump_keys)
    next
      case False
      then have "set (map fst (bump ft (failure_type_of r)))
                 = insert (failure_type_of r) (set (map fst ft))"
        by (simp only: bump_keys if_False) simp
      with False \<open>is_failure r\<close> Cons.IH [of "bump ft (failure_type_of r)"] show ?thesis
        by (simp add: bump_keys)
    qed
  qed
qed

lemma fresh_types_notin: "t \<in> set (fresh_types h S) \<Longrightarrow> t \<notin> S"
  by (induction h arbitrary: S) (auto split: if_splits)

lemma fresh_types_distinct: "distinct (fresh_types h S)"
  by (induction h arbitrary: S) (auto dest: fresh_types_notin)

lemma first_failure_index_Cons:
  "first_failure_index (r # rs) t =
     (if is_failure r \<and> failure_type_of r = t then 0 else Suc (first_failure_index rs t))"
  by (simp add: first_failure_index_def)

lemma fresh_types_sorted:
  "sorted_wrt (\<lambda>a b. first_failure_index h a < first_failure_index h b) (fresh_types h S)"
proof (induction h arbitrary: S)
  case Nil
  then show ?case by simp
next
  case (Cons r rs)
  let ?t = "failure_type_of r"
  show ?case
  proof (cases "is_failure r \<and> ?t \<notin> S")
    case True
    have tail: "sorted_wrt (\<lambda>a b. first_failure_index (r # rs) a < first_failure_index (r # rs) b)
            (fresh_types rs (insert ?t S))"
    proof (rule sorted_wrt_mono_rel [OF _ Cons.IH [of "insert ?t S"]])
      fix a b
      assume "a \<in> set (fresh_types rs (insert ?t S))" "b \<in> set (fresh_types rs (insert ?t S))"
        and lt: "first_failure_index rs a < first_failure_index rs b"
      then have "a \<noteq> ?t" "b \<noteq> ?t" by (auto dest: fresh_types_notin)
      with lt show "first_failure_index (r # rs) a < first_failure_index (r # rs) b"
        by (simp add: first_failure_index_Cons)
    qed
    have head: "\<forall>b \<in> set (fresh_types rs (insert ?t S)).
            first_failure_index (r # rs) ?t < first_failure_index (r # rs) b"
    proof
      fix b assume "b \<in> set (fresh_types rs (insert ?t S))"
      then have "b \<noteq> ?t" by (auto dest: fresh_types_notin)
      with True show "first_failure_index (r # rs) ?t < first_failure_index (r # rs) b"
        by (simp add: first_failure_index_Cons)
    qed
    from True tail head show ?thesis by simp
  next
    case False
    have "sorted_wrt (\<lambda>a b. first_failure_index (r # rs) a < first_failure_index (r # rs) b)
            (fresh_types rs S)"
    proof (rule sorted_wrt_mono_rel [OF _ Cons.IH [of S]])
      fix a b
      assume a: "a \<in> set (fresh_types rs S)" and b: "b \<in> set (fresh_types rs S)"
        and lt: "first_failure_index rs a < first_failure_index rs b"
      from a b have "a \<notin> S" "b \<notin> S" by (auto dest: fresh_types_notin)
      with False have "\<not> (is_failure r \<and> ?t = a)" "\<not> (is_failure r \<and> ?t = b)" by auto
      with lt show "first_failure_index (r # rs) a < first_failure_index (r # rs) b"
        by (simp add: first_failure_index_Cons)
    qed
    with False show ?thesis by auto
  qed
qed

lemma failure_types_first_seen:
  "sorted_wrt (\<lambda>a b. first_failure_index h (fst a) < first_failure_index h (fst b))
     (failure_types h [])"
proof -
  have "sorted_wrt (\<lambda>a b. first_failure_index h a < first_failure_index h b)
          (map fst (failure_types h []))"
    by (simp add: failure_types_keys fresh_types_sorted)
  then show ?thesis by (simp add: sorted_wrt_map)
qed

lemma failure_types_distinct: "distinct (map fst (failure_types h []))"
  by (simp add: failure_types_keys fresh_types_distinct)

lemma failure_count_Cons:
  "failure_count (r # rs) t =
     (if is_failure r \<and> failure_type_of r = t then Suc (failure_count rs t) else failure_count rs t)"
  by (simp add: failure_count_def)

lemma map_of_bump:
  "map_of (bump ft t) u =
     (if u = t then Some ((case map_of ft t of None \<Rightarrow> 0 | Some c \<Rightarrow> c) + 1) else map_of ft u)"
  by (simp add: bump_def update_conv')

lemma failure_types_counts:
  "map_of (failure_types h ft) t =
     (if failure_count h t = 0 then map_of ft t
      else Some ((case map_of ft t of None \<Rightarrow> 0 | Some c \<Rightarrow> c) + failure_count h t))"
proof (induction h arbitrary: ft)
  case Nil
  then show ?case by (simp add: failure_count_def)
next
  case (Cons r rs)
  show ?case
  proof (cases "is_failure r")
    case False
    then show ?thesis using Cons.IH [of ft] by (simp add: failure_count_Cons)
  next
    case True
    show ?thesis
    proof (cases "failure_type_of r = t")
      case False
      with True show ?thesis
        using Cons.IH [of "bump ft (failure_type_of r)"]
        by (simp add: failure_count_Cons map_of_bump)
    next
      case eq: True
      with True show ?thesis
        using Cons.IH [of "bump ft t"]
        by (simp add: failure_count_Cons map_of_bump)
    qed
  qed
qed

lemma failure_types_member:
  assumes "(t, c) \<in> set (failure_types h [])"
  shows "c = failure_count h t \<and> 0 < c"
proof -
  from assms failure_types_distinct [of h] have "map_of (failure_types h []) t = Some c"
    by simp
  then show ?thesis
    by (simp add: failure_types_counts split: if_splits)
qed

lemma top_failures_length: "length (top_failures h) \<le> 3"
  by (simp add: top_failures_def)

lemma top_failures_desc: "sorted_wrt (\<lambda>x y. snd y \<le> snd x) (top_failures h)"
  unfolding top_failures_def by (rule sorted_wrt_take) (rule sorted_reverse_desc)

lemma top_failures_ties:
  assumes "i < j" "j < length (top_failures h)"
    and "snd (top_failures h ! i) = snd (top_failures h ! j)"
  shows "first_failure_index h (fst (top_failures h ! i))
         < first_failure_index h (fst (top_failures h ! j))"
proof -
  let ?items = "failure_types h []"
  let ?ys = "sorted_reverse snd ?items"
  let ?k = "snd (?ys ! j)"
  let ?R = "\<lambda>a b. first_failure_index h (fst a) < first_failure_index h (fst b)"
  from assms have j: "j < length ?ys" "j < 3" and i: "i < 3"
    by (simp_all add: top_failures_def)
  from assms i j have eq: "snd (?ys ! i) = ?k"
    by (simp add: top_failures_def)
  have "sorted_wrt ?R (filter (\<lambda>y. snd y = ?k) ?items)"
    by (rule sorted_wrt_filter) (rule failure_types_first_seen)
  then have "sorted_wrt ?R (filter (\<lambda>y. snd y = ?k) ?ys)"
    by (simp only: sorted_reverse_stable)
  from filter_sorted_wrt_nth [OF this assms(1) j(1) eq refl]
  have "?R (?ys ! i) (?ys ! j)" .
  with i j show ?thesis by (simp add: top_failures_def)
qed

lemma top_failures_count:
  assumes "(t, c) \<in> set (top_failures h)"
  shows "c = failure_count h t \<and> 0 < c"
proof -
  from assms have "(t, c) \<in> set (sorted_reverse snd (failure_types h []))"
    unfolding top_failures_def by (rule in_set_takeD)
  then have "(t, c) \<in> set (failure_types h [])"
    by (simp only: sorted_reverse_set)
  then show ?thesis by (rule failure_types_member)
qed

lemma first_failure_index_less:
  "0 < failure_count h t \<Longrightarrow> first_failure_index h t < length h"
  by (induction h) (auto simp add: first_failure_index_Cons failure_count_Cons split: if_splits simp: failure_count_def)

lemma common_failures_eq:
  "common_failures (analyze_history h) =
     map (\<lambda>f. \<lparr> fs_type = fst f, fs_count = snd f \<rparr>) (top_failures h)"
  by (simp add: analyze_history_def Let_def top_failures_def sorted_reverse_def)

text \<open>
  Claim C5. The analysis of the empty history is the placeholder result: no tests, success
  rate 0 and one non-empty recommendation message. For a non-empty history the success
  rate is the number of entries whose outcome is \<open>success\<close> divided by the number of
  entries, and \<open>common_failures\<close> has at most three entries, in descending order of
  count. \<open>analyze_history\<close> takes the history and nothing else, so its result depends
  only on that list.
\<close>

theorem analyze_history_spec:
  "total_tests (analyze_history []) = 0
   \<and> success_rate (analyze_history []) = 0
   \<and> recommendations (analyze_history []) =
        Some [''No historical data available - start with basic S3 tests'']
   \<and> total_tests (analyze_history (r # rs)) = length (r # rs)
   \<and> success_rate (analyze_history (r # rs)) =
        of_nat (length (filter (\<lambda>e. he_outcome e = PStr ''success'') (r # rs)))
          / of_nat (length (r # rs))
   \<and> length (common_failures (analyze_history (r # rs))) \<le> 3
   \<and> sorted_wrt (\<lambda>x y. fs_count y \<le> fs_count x) (common_failures (analyze_history (r # rs)))"
proof -
  have "sorted_wrt (\<lambda>x y. fs_count y \<le> fs_count x) (common_failures (analyze_history (r # rs)))"
    using top_failures_desc [of "r # rs"]
    by (simp add: common_failures_eq sorted_wrt_map)
  moreover have "length (common_failures (analyze_history (r # rs))) \<le> 3"
    by (simp add: common_failures_eq top_failures_length)
  moreover have "success_rate (analyze_history (r # rs)) =
        of_nat (length (filter (\<lambda>e. he_outcome e = PStr ''success'') (r # rs)))
          / of_nat (length (r # rs))"
    by (simp add: analyze_history_def Let_def is_success_def [abs_def])
  ultimately show ?thesis
    by (simp add: analyze_history_def Let_def)
qed

text \<open>
  Claim C6. In \<open>common_failures\<close> an earlier entry never has a smaller count than a
  later one, and of two entries with equal counts the earlier one is the failure type
  whose first failed entry comes earlier in the history. Each count is the number of
  failed entries of that type.
\<close>

theorem common_failures_tie_break:
  assumes "i < j" and "j < length (common_failures (analyze_history h))"
  shows "fs_count (common_failures (analyze_history h) ! j)
           \<le> fs_count (common_failures (analyze_history h) ! i)
         \<and> (fs_count (common_failures (analyze_history h) ! i)
              = fs_count (common_failures (analyze_history h) ! j)
            \<longrightarrow> first_failure_index h (fs_type (common_failures (analyze_history h) ! i))
                  < first_failure_index h (fs_type (common_failures (analyze_history h) ! j)))
         \<and> fs_count (common_failures (analyze_history h) ! i)
             = failure_count h (fs_type (common_failures (analyze_history h) ! i))
         \<and> fs_count (common_failures (analyze_history h) ! j)
             = failure_count h (fs_type (common_failures (analyze_history h) ! j))
         \<and> first_failure_index h (fs_type (common_failures (analyze_history h) ! i)) < length h"
proof -
  let ?tf = "top_failures h"
  from assms have j: "j < length ?tf" and i: "i < length ?tf"
    by (simp_all add: common_failures_eq)
  have desc: "snd (?tf ! j) \<le> snd (?tf ! i)"
    using top_failures_desc [of h] assms(1) j
    by (simp add: sorted_wrt_iff_nth_less)
  have tie: "snd (?tf ! i) = snd (?tf ! j) \<Longrightarrow>
      first_failure_index h (fst (?tf ! i)) < first_failure_index h (fst (?tf ! j))"
    using top_failures_ties [OF assms(1) j] by simp
  have "(fst (?tf ! i), snd (?tf ! i)) \<in> set ?tf" using i by simp
  then have ci: "snd (?tf ! i) = failure_count h (fst (?tf ! i)) \<and> 0 < snd (?tf ! i)"
    by (rule top_failures_count)
  have "(fst (?tf ! j), snd (?tf ! j)) \<in> set ?tf" using j by simp
  then have cj: "snd (?tf ! j) = failure_count h (fst (?tf ! j)) \<and> 0 < snd (?tf ! j)"
    by (rule top_failures_count)
  from ci have "first_failure_index h (fst (?tf ! i)) < length h"
    by (simp add: first_failure_index_less)
  with desc tie ci cj i j show ?thesis
    by (simp add: common_failures_eq)
qed

lemma tie_cf: "common_failures (analyze_history tie_history) =
  [\<lparr>fs_type = ''a'', fs_count = 2\<rparr>, \<lparr>fs_type = ''c'', fs_count = 2\<rparr>, \<lparr>fs_type = ''b'', fs_count = 1\<rparr>]"
  by code_simp

text \<open>
  The history of failures \<open>b, a, c, c, d, a\<close>: \<open>a\<close> and \<open>c\<close> both occur twice,
  \<open>a\<close> first at position 1 and \<open>c\<close> first at position 2, and \<open>a\<close> is listed first.
\<close>

theorem common_failures_tie_break_witness:
  "(0::nat) < 1 \<and> 1 < length (common_failures (analyze_history tie_history))
   \<and> fs_count (common_failures (analyze_history tie_history) ! 0)
       = fs_count (common_failures (analyze_history tie_history) ! 1)
   \<and> fs_type (common_failures (analyze_history tie_history) ! 0) = ''a''
   \<and> fs_type (common_failures (analyze_history tie_history) ! 1) = ''c''
   \<and> first_failure_index tie_history ''a'' < first_failure_index tie_history ''c''"
proof -
  have h1: "(0::nat) < 1" by simp
  have h2: "1 < length (common_failures (analyze_history tie_history))"
    by (simp add: tie_cf)
  from common_failures_tie_break [OF h1 h2] h1 h2 show ?thesis
    by (simp add: tie_cf)
qed

section \<open>Properties of the Recommendation Normalizer\<close>

lemma split_on_nonempty: "split_on sep s \<noteq> []"
  by (induction s) (auto split: list.splits)

lemma join_split_on: "join sep (split_on sep s) = s"
proof (induction s)
  case Nil
  then show ?case by simp
next
  case (Cons c cs)
  show ?case
  proof (cases "c = sep")
    case True
    with Cons split_on_nonempty [of sep cs] show ?thesis
      by (cases "split_on sep cs") simp_all
  next
    case False
    with Cons split_on_nonempty [of sep cs] show ?thesis
      by (cases "split_on sep cs"; cases "tl (split_on sep cs)") auto
  qed
qed
















section \<open>Properties of the stages\<close>

lemma py_iter_dicts: "py_iter (PList (map PDict cs)) = Inr (map PDict cs)"
  by simp

lemma any_non_compliant_dicts: "\<exists>b. any_non_compliant (map PDict cs) = Inr b"
  by (induction cs) auto

lemma step_validate_safety:
  assumes "step_validate True now m r = Inr d"
  shows "dict_get d ''test_passed'' = PBool True"
    and "dict_get d ''outcome'' = PStr ''success_simulated''"
    and "map_of d ''applied'' = None"
  using assms
  by (auto simp add: step_validate_def Let_def dict_get_def split: sum.splits)

lemma step_validate_keys:
  assumes "step_validate sm now m r = Inr d"
  shows "map fst d = [''outcome'', ''test_passed'', ''expected_outcome'',
     ''validation_criteria'', ''non_compliant_detected'', ''compliance_count'',
     ''validated_at'']"
  using assms
  by (auto simp add: step_validate_def Let_def split: sum.splits)

text \<open>
  Claim C3, as amended. The Outcome Validator is a function of the monitoring result,
  the recommendation, the safety-mode flag and the clock: the field \<open>validated_at\<close> is
  the time of the call. Whether it raises, and every other field of its result, depend
  on the first three only: a call at another time gives the same exception, or the same
  dictionary with \<open>validated_at\<close> replaced.
\<close>

theorem step_validate_clock:
  "(step_validate safety_mode now m r = Inl e
      \<longrightarrow> step_validate safety_mode now' m r = Inl e)
   \<and> (step_validate safety_mode now m r = Inr d
      \<longrightarrow> dict_get d ''validated_at'' = PStr now
          \<and> step_validate safety_mode now' m r = Inr (dict_set d ''validated_at'' (PStr now')))"
  by (auto simp add: step_validate_def Let_def dict_get_def dict_set_def split: sum.splits)

text \<open>
  Two calls at different times, on a monitoring result with one non-compliant record
  (safety mode off) and on one whose compliance entry is not iterable.
\<close>

theorem step_validate_clock_witness:
  "step_validate False ''2024-01-01T00:00:01'' compliant_monitoring [] =
     Inr [(''outcome'', PStr ''success''), (''test_passed'', PBool True),
          (''expected_outcome'', PStr ''''), (''validation_criteria'', PStr ''''),
          (''non_compliant_detected'', PBool True), (''compliance_count'', PInt 1),
          (''validated_at'', PStr ''2024-01-01T00:00:01'')]
   \<and> step_validate False ''2024-01-01T00:00:02'' compliant_monitoring [] =
     Inr [(''outcome'', PStr ''success''), (''test_passed'', PBool True),
          (''expected_outcome'', PStr ''''), (''validation_criteria'', PStr ''''),
          (''non_compliant_detected'', PBool True), (''compliance_count'', PInt 1),
          (''validated_at'', PStr ''2024-01-01T00:00:02'')]
   \<and> step_validate True ''2024-01-01T00:00:01'' bad_monitoring [] =
     Inl (Exn TypeError (quoted ''int'' @ '' object is not iterable''))
   \<and> step_validate True ''2024-01-01T00:00:02'' bad_monitoring [] =
     Inl (Exn TypeError (quoted ''int'' @ '' object is not iterable''))"
proof -
  have a: "step_validate False ''2024-01-01T00:00:01'' compliant_monitoring [] =
     Inr [(''outcome'', PStr ''success''), (''test_passed'', PBool True),
          (''expected_outcome'', PStr ''''), (''validation_criteria'', PStr ''''),
          (''non_compliant_detected'', PBool True), (''compliance_count'', PInt 1),
          (''validated_at'', PStr ''2024-01-01T00:00:01'')]"
    by (simp add: step_validate_def compliant_monitoring_def dict_get_default_def dict_get_def)
  have b: "step_validate True ''2024-01-01T00:00:01'' bad_monitoring [] =
     Inl (Exn TypeError (quoted ''int'' @ '' object is not iterable''))"
    by (simp add: step_validate_def bad_monitoring_def dict_get_default_def)
  from step_validate_clock [of False "''2024-01-01T00:00:01''" compliant_monitoring "[]" _
         "''2024-01-01T00:00:02''"] a
       step_validate_clock [of True "''2024-01-01T00:00:01''" bad_monitoring "[]"
         "Exn TypeError (quoted ''int'' @ '' object is not iterable'')"
         "''2024-01-01T00:00:02''"] b
  show ?thesis
    by (simp add: dict_set_def)
qed

text \<open>
  The claim as stated fails: two calls with the same monitoring result, recommendation
  and safety-mode flag, one second apart, return different dictionaries.
\<close>

theorem step_validate_counterexample:
  "step_validate True ''2024-01-01T00:00:01'' [] []
     \<noteq> step_validate True ''2024-01-01T00:00:02'' [] []"
  by (simp add: step_validate_def dict_get_default_def)

lemma simulate_s3_safety:
  "simulate_s3_bucket_misconfiguration s3 bucket make_public True =
     Inr [(''bucket'', bucket),
          (''action'', PStr (if make_public then ''make_public'' else ''fix_public'')),
          (''applied'', PBool False), (''safety_mode'', PBool True),
          (''simulated_outcome'', PStr ''success'')]"
  by (simp add: simulate_s3_bucket_misconfiguration_def)

lemma step_inject_chaos_safety:
  assumes "step_inject_chaos s3 True r = Inr d"
  shows "dict_get d ''applied'' = PBool False"
  using assms
  by (auto simp add: step_inject_chaos_def Let_def simulate_s3_safety dict_get_def dict_set_def
      split: pyval.splits if_splits)


lemma inject_unknown_type:
  "step_inject_chaos denied_s3 False [(''chaos_type'', PStr ''stop_ec2'')] =
     Inr [(''chaos_type'', PStr ''make_s3_public''),
          (''target'', PStr ''chaossec-test-bucket''),
          (''applied'', PBool False), (''safety_mode'', PBool False),
          (''note'', PStr ''Fallback to S3 test'')]"
  by code_simp

lemma inject_denied:
  "step_inject_chaos denied_s3 False fallback_recommendation =
     Inr [(''bucket'', PStr ''s3-chaossec-test-bucket''),
          (''action'', PStr ''make_public''),
          (''applied'', PBool False),
          (''error'', PStr ''An error occurred (AccessDenied)''),
          (''outcome'', PStr ''failure''),
          (''chaos_type'', PStr ''make_s3_public''),
          (''reasoning'', PStr ''Starting with fundamental S3 security test (fallback logic)'')]"
  by code_simp







lemma step_learn_failing_write:
  "fst (step_learn failing_write ''/app/chaossec_history.json'' simulated_iteration
          \<lparr> current_twin_id = PNone, execution_history = [], file_system = None \<rparr>) =
     Inr [(''stored'', PBool True), (''history_length'', PInt 1),
          (''history_file'', PStr ''/app/chaossec_history.json'')]"
  by (simp add: step_learn_def Let_def)

lemma analyze_history_counts:
  "successful_tests (analyze_history (r # rs)) =
      Some (length (filter (\<lambda>e. he_outcome e = PStr ''success'') (r # rs)))"
  "failed_tests (analyze_history (r # rs)) =
      Some (length (filter (\<lambda>e. he_outcome e = PStr ''failure'') (r # rs)))"
  by (simp_all add: analyze_history_def Let_def is_success_def [abs_def] is_failure_def [abs_def])

lemma analyze_history_other_outcome:
  assumes "he_outcome x \<noteq> PStr ''success''" and "he_outcome x \<noteq> PStr ''failure''"
  shows "total_tests (analyze_history (xs @ x # ys)) = Suc (total_tests (analyze_history (xs @ ys)))"
    and "successful_tests (analyze_history (xs @ x # ys)) =
           Some (length (filter (\<lambda>e. he_outcome e = PStr ''success'') (xs @ ys)))"
    and "failed_tests (analyze_history (xs @ x # ys)) =
           Some (length (filter (\<lambda>e. he_outcome e = PStr ''failure'') (xs @ ys)))"
  using assms
  by (simp_all add: analyze_history_def Let_def is_success_def [abs_def] is_failure_def [abs_def])

lemma analyze_history_simulated:
  assumes "\<forall>e \<in> set h. he_outcome e = PStr ''success_simulated''"
  shows "success_rate (analyze_history h) = 0" and "total_tests (analyze_history h) = length h"
proof -
  from assms have "filter is_success h = []"
    by (auto simp add: filter_empty_conv is_success_def)
  then show "success_rate (analyze_history h) = 0"
    by (simp add: analyze_history_def Let_def)
  show "total_tests (analyze_history h) = length h"
    by (simp add: analyze_history_def Let_def)
qed

lemma history_entry_of_validate:
  assumes "step_validate True now m r = Inr d" and "map_of (ir_steps it) ''validate'' = Some d"
  shows "he_outcome (history_entry_of it) = PStr ''success_simulated''"
    and "he_test_passed (history_entry_of it) = PBool True"
  using assms step_validate_safety [OF assms(1)]
  by (simp_all add: history_entry_of_def step_of_def)

text \<open>
  Claim C9. The counts \<open>successful_tests\<close> and \<open>failed_tests\<close> are the numbers of
  entries whose outcome is exactly \<open>success\<close> and exactly \<open>failure\<close>. An entry with
  another outcome adds one to \<open>total_tests\<close> and nothing to either count. For a history
  whose entries all have outcome \<open>success_simulated\<close> the success rate is 0; and that is
  the outcome the learn stage stores for an iteration validated in safety mode.
\<close>

theorem analyze_history_outcomes:
  "successful_tests (analyze_history (r # rs)) =
      Some (length (filter (\<lambda>e. he_outcome e = PStr ''success'') (r # rs)))
   \<and> failed_tests (analyze_history (r # rs)) =
      Some (length (filter (\<lambda>e. he_outcome e = PStr ''failure'') (r # rs)))
   \<and> (he_outcome x \<noteq> PStr ''success'' \<and> he_outcome x \<noteq> PStr ''failure''
      \<longrightarrow> total_tests (analyze_history (xs @ x # ys))
            = Suc (total_tests (analyze_history (xs @ ys)))
          \<and> successful_tests (analyze_history (xs @ x # ys)) =
              Some (length (filter (\<lambda>e. he_outcome e = PStr ''success'') (xs @ ys)))
          \<and> failed_tests (analyze_history (xs @ x # ys)) =
              Some (length (filter (\<lambda>e. he_outcome e = PStr ''failure'') (xs @ ys))))
   \<and> ((\<forall>e \<in> set h. he_outcome e = PStr ''success_simulated'')
      \<longrightarrow> success_rate (analyze_history h) = 0 \<and> total_tests (analyze_history h) = length h)
   \<and> (step_validate True now m recommendation = Inr d
        \<and> map_of (ir_steps it) ''validate'' = Some d
      \<longrightarrow> he_outcome (history_entry_of it) = PStr ''success_simulated''
          \<and> he_test_passed (history_entry_of it) = PBool True)"
  using analyze_history_counts [of r rs] analyze_history_other_outcome [of x xs ys]
    analyze_history_simulated [of h] history_entry_of_validate [of now m recommendation d it]
  by blast

lemma simulated_iteration_validate:
  "step_validate True ''2024-01-01T00:00:05'' [] fallback_recommendation =
     Inr [(''outcome'', PStr ''success_simulated''), (''test_passed'', PBool True),
          (''expected_outcome'',
             PStr ''AWS Config should detect non-compliance, security alerts should fire''),
          (''validation_criteria'',
             PStr ''Config rule violation detected, CloudWatch alarm triggered''),
          (''non_compliant_detected'', PBool False), (''compliance_count'', PInt 0),
          (''validated_at'', PStr ''2024-01-01T00:00:05'')]"
  by code_simp

text \<open>
  Two iterations validated in safety mode: two tests, no success, no failure, rate 0.
\<close>

theorem analyze_history_outcomes_witness:
  "he_outcome (history_entry_of simulated_iteration) = PStr ''success_simulated''
   \<and> he_test_passed (history_entry_of simulated_iteration) = PBool True
   \<and> total_tests (analyze_history
        [history_entry_of simulated_iteration, history_entry_of simulated_iteration]) = 2
   \<and> successful_tests (analyze_history
        [history_entry_of simulated_iteration, history_entry_of simulated_iteration]) = Some 0
   \<and> failed_tests (analyze_history
        [history_entry_of simulated_iteration, history_entry_of simulated_iteration]) = Some 0
   \<and> success_rate (analyze_history
        [history_entry_of simulated_iteration, history_entry_of simulated_iteration]) = 0"
proof -
  let ?x = "history_entry_of simulated_iteration"
  have v: "map_of (ir_steps simulated_iteration) ''validate'' =
     Some [(''outcome'', PStr ''success_simulated''), (''test_passed'', PBool True),
          (''expected_outcome'',
             PStr ''AWS Config should detect non-compliance, security alerts should fire''),
          (''validation_criteria'',
             PStr ''Config rule violation detected, CloudWatch alarm triggered''),
          (''non_compliant_detected'', PBool False), (''compliance_count'', PInt 0),
          (''validated_at'', PStr ''2024-01-01T00:00:05'')]"
    by (simp add: simulated_iteration_def)
  note inst = analyze_history_outcomes
    [of ?x "[?x]" ?x "[?x]" "[]" "[?x, ?x]" "''2024-01-01T00:00:05''" "[]"
        fallback_recommendation _ simulated_iteration]
  from inst simulated_iteration_validate v
  have o: "he_outcome ?x = PStr ''success_simulated''" "he_test_passed ?x = PBool True"
    by simp_all
  with inst show ?thesis by simp
qed

section \<open>Properties of the Iteration Sequencer\<close>


lemma add_step_fields:
  "ir_iteration_id (add_step it name d) = ir_iteration_id it"
  "ir_started_at (add_step it name d) = ir_started_at it"
  "ir_completed_at (add_step it name d) = ir_completed_at it"
  "ir_status (add_step it name d) = ir_status it"
  "ir_error (add_step it name d) = ir_error it"
  by (simp_all add: add_step_def)







end
